theory Spec2Isabelle
  imports Complex_Main "HOL-Library.Sublist"
begin

section \<open>FluxMarket backend: listing search, saved entries and message threads\<close>

text \<open>
  A shallow embedding of the request handlers of \<^verbatim>\<open>main.py\<close> and the record schemas of
  \<^verbatim>\<open>schemas.py\<close>. Every handler is a function from the store (and the request) to a
  result and the store afterwards. A raised exception is the \<open>Inl\<close> branch of the result.
  The store keeps a log of the accesses made to it, so that "the store was not touched"
  is the statement that the store comes back equal.
\<close>

subsection \<open>Errors and responses\<close>

text \<open>
  \<open>HTTPException c d\<close> is \<^verbatim>\<open>raise HTTPException(status_code=c, detail=d)\<close>.
  \<open>RequestValidationError\<close> is the framework's rejection of a query parameter outside the
  bounds declared with \<^verbatim>\<open>Query(..., ge=, le=)\<close>, raised before the handler's body runs.
  \<open>ValidationError\<close> is what a schema constructor of \<^verbatim>\<open>schemas.py\<close> raises inside a handler.
  \<open>OperationFailure\<close> is what the store's client raises when the store refuses a filter,
  here a search pattern that is no regular expression; nothing in a handler catches it.
\<close>

datatype error =
    HTTPException nat string
  | RequestValidationError
  | ValidationError
  | OperationFailure

text \<open>
  Modelled from the spec: the error taxonomy is not in the source, which only has status
  codes. Section 4.1 makes \<open>InvalidArgument\<close> the HTTP-equivalent 400; \<open>NotFound\<close> is 404.
\<close>

definition is_invalid_argument :: "error \<Rightarrow> bool" where
  "is_invalid_argument e = (case e of HTTPException c d \<Rightarrow> c = 400 | _ \<Rightarrow> False)"

definition is_not_found :: "error \<Rightarrow> bool" where
  "is_not_found e = (case e of HTTPException c d \<Rightarrow> c = 404 | _ \<Rightarrow> False)"

subsection \<open>Identifiers\<close>

definition hexdigits :: "char list" where
  "hexdigits = ''0123456789abcdefABCDEF''"

text \<open>
  Modelled from the spec: \<^verbatim>\<open>ObjectId.is_valid\<close> belongs to the store's client library. The
  spec's identifier format is a fixed-length hex-like token: 24 hexadecimal digits.
\<close>

definition is_valid :: "string \<Rightarrow> bool" where
  "is_valid s = (length s = 24 \<and> list_all (\<lambda>c. c \<in> set hexdigits) s)"

definition to_lower :: "char \<Rightarrow> char" where
  "to_lower c =
     (case map_of (zip ''ABCDEFGHIJKLMNOPQRSTUVWXYZ'' ''abcdefghijklmnopqrstuvwxyz'') c of
        None \<Rightarrow> c
      | Some d \<Rightarrow> d)"

text \<open>
  \<^verbatim>\<open>ObjectId(s)\<close> for a valid \<open>s\<close>: the identifier it denotes, written in its canonical form
  (\<^verbatim>\<open>str\<close> of an ObjectId is lower-case hex). Two spellings that differ in case only are
  the same identifier.
\<close>

definition ObjectId :: "string \<Rightarrow> string" where
  "ObjectId s = map to_lower s"

subsection \<open>Records of \<^verbatim>\<open>schemas.py\<close>\<close>

record user =
  u_name :: string
  u_email :: string
  u_password_hash :: string
  u_avatar_url :: "string option"
  u_location :: "string option"
  u_is_active :: bool

record listing =
  l_user_id :: string
  l_title :: string
  l_description :: string
  l_price :: real
  l_category :: string
  l_listing_type :: string
  l_location :: "string option"
  l_images :: "string list"
  l_status :: string

record message =
  m_listing_id :: string
  m_from_user_id :: string
  m_to_user_id :: string
  m_content :: string
  m_read :: bool

text \<open>A message as stored: the schema's fields and the creation timestamp the store adds.\<close>

record stored_message = message +
  created_at :: nat

record saved =
  s_user_id :: string
  s_listing_id :: string

text \<open>
  The validators of the schema library that are not part of this repository (e-mail
  addresses, URLs) and the hash function are parameters of the model. \<open>EmailStr\<close> gives
  the address as the library normalises it, or \<open>None\<close> where it refuses the address.
\<close>

record env =
  sha256 :: "string \<Rightarrow> string"
  EmailStr :: "string \<Rightarrow> string option"
  url_ok :: "string \<Rightarrow> bool"

text \<open>The schema constructors: \<open>None\<close> is a raised \<^verbatim>\<open>ValidationError\<close>.\<close>

definition UserSchema :: "env \<Rightarrow> user \<Rightarrow> user option" where
  "UserSchema e u =
     (case EmailStr e (u_email u) of
        None \<Rightarrow> None
      | Some address \<Rightarrow> Some (u\<lparr>u_email := address\<rparr>))"

definition ListingSchema :: "env \<Rightarrow> listing \<Rightarrow> listing option" where
  "ListingSchema e l =
     (if length (l_title l) \<le> 140 \<and> length (l_description l) \<le> 5000 \<and> 0 \<le> l_price l
         \<and> l_listing_type l \<in> set [''sale'', ''service'', ''rent'']
         \<and> list_all (url_ok e) (l_images l)
         \<and> l_status l \<in> set [''active'', ''sold'', ''paused'']
      then Some l else None)"

definition MessageSchema :: "message \<Rightarrow> message option" where
  "MessageSchema m = (if length (m_content m) \<le> 5000 then Some m else None)"

definition SavedSchema :: "saved \<Rightarrow> saved option" where
  "SavedSchema s = Some s"

subsection \<open>The store\<close>

text \<open>
  A stored document is its internal identifier (\<^verbatim>\<open>_id\<close>) and its fields. A returned item
  is the same with the identifier under the public name \<^verbatim>\<open>id\<close>:
  \<^verbatim>\<open>d["id"] = str(d.pop("_id"))\<close>.
\<close>

record 'a document =
  oid :: string
  body :: 'a

record 'a item =
  item_id :: string
  item_fields :: 'a

definition public :: "'a document \<Rightarrow> 'a item" where
  "public d = \<lparr>item_id = oid d, item_fields = body d\<rparr>"

datatype access = Read string | Write string

text \<open>
  Modelled from the spec: the module \<^verbatim>\<open>database\<close> (\<^verbatim>\<open>db\<close>, \<^verbatim>\<open>create_document\<close>) is not
  under src/. Following section 6, a collection is the sequence of its documents in the
  store's natural order (insertion order); \<^verbatim>\<open>find_one\<close> gives the first document the
  filter matches or nothing, \<^verbatim>\<open>find\<close> the matching documents in natural order,
  \<^verbatim>\<open>sort(field, 1)\<close> orders them ascending by that one field and leaves documents with
  equal keys in the order they had, \<^verbatim>\<open>limit(n)\<close> keeps the first \<open>n\<close>, and an insert
  appends the record under the identifier the store assigns and gives that identifier
  back. \<open>touched\<close> records every access, as a store stub would.
\<close>

record store =
  db_user :: "user document list"
  db_listing :: "listing document list"
  db_message :: "stored_message document list"
  db_saved :: "saved document list"
  touched :: "access list"

definition touch :: "access \<Rightarrow> store \<Rightarrow> store" where
  "touch a st = st\<lparr>touched := touched st @ [a]\<rparr>"

definition find_one :: "('a \<Rightarrow> bool) \<Rightarrow> 'a list \<Rightarrow> 'a option" where
  "find_one p ds = List.find p ds"

definition limit_docs :: "int \<Rightarrow> 'a list \<Rightarrow> 'a list" where
  "limit_docs n ds = take (nat n) ds"

text \<open>
  \<^verbatim>\<open>create_document(collection, data)\<close>, one function for each collection. \<open>nid\<close> is the
  identifier the store assigns to the new document and \<open>now\<close> the server's clock.
\<close>

definition create_document_user :: "store \<Rightarrow> string \<Rightarrow> user \<Rightarrow> store" where
  "create_document_user st nid u =
     (touch (Write ''user'') st)\<lparr>db_user := db_user st @ [\<lparr>oid = nid, body = u\<rparr>]\<rparr>"

definition create_document_listing :: "store \<Rightarrow> string \<Rightarrow> listing \<Rightarrow> store" where
  "create_document_listing st nid l =
     (touch (Write ''listing'') st)\<lparr>db_listing := db_listing st @ [\<lparr>oid = nid, body = l\<rparr>]\<rparr>"

definition create_document_message :: "store \<Rightarrow> string \<Rightarrow> nat \<Rightarrow> message \<Rightarrow> store" where
  "create_document_message st nid now m =
     (touch (Write ''message'') st)\<lparr>db_message := db_message st @
        [\<lparr>oid = nid, body = message.extend m (stored_message.fields now)\<rparr>]\<rparr>"

definition create_document_saved :: "store \<Rightarrow> string \<Rightarrow> saved \<Rightarrow> store" where
  "create_document_saved st nid s =
     (touch (Write ''saved'') st)\<lparr>db_saved := db_saved st @ [\<lparr>oid = nid, body = s\<rparr>]\<rparr>"

subsection \<open>The store's regular-expression operator\<close>

text \<open>
  \<^verbatim>\<open>{"$regex": q, "$options": "i"}\<close> makes the store search the field for a match of the
  regular expression \<open>q\<close>, ignoring case. The operator is the store's own and is a
  parameter of the model: given the pattern it yields the test on the field, or \<open>None\<close>
  where the store refuses the pattern.
\<close>

type_synonym regex_op = "string \<Rightarrow> (string \<Rightarrow> bool) option"

subsection \<open>Requests and responses\<close>

record RegisterBody =
  rb_name :: string
  rb_email :: string
  rb_password :: string
  rb_location :: "string option"

record CreateListingBody =
  cl_user_id :: string
  cl_title :: string
  cl_description :: string
  cl_price :: real
  cl_category :: string
  cl_listing_type :: string
  cl_location :: "string option"
  cl_images :: "string list option"

record SaveBody =
  sb_user_id :: string
  sb_listing_id :: string

record SendMessageBody =
  sm_listing_id :: string
  sm_from_user_id :: string
  sm_to_user_id :: string
  sm_content :: string

text \<open>
  \<open>Registered i n e\<close> is \<^verbatim>\<open>{"id": i, "name": n, "email": e}\<close>, \<open>Created i\<close> is
  \<^verbatim>\<open>{"id": i}\<close>, \<open>Status s\<close> is \<^verbatim>\<open>{"status": s}\<close>, and the three others are
  \<^verbatim>\<open>{"items": [...]}\<close>.
\<close>

datatype response =
    Registered string string string
  | Created string
  | Status string
  | ListingItems "listing item list"
  | SavedItems "saved item list"
  | MessageItems "stored_message item list"

subsection \<open>Handlers\<close>

definition register :: "env \<Rightarrow> store \<Rightarrow> string \<Rightarrow> RegisterBody \<Rightarrow> (error + response) \<times> store" where
  "register e st nid b =
     (let st1 = touch (Read ''user'') st;
          existing = find_one (\<lambda>d. u_email (body d) = rb_email b) (db_user st)
      in if existing \<noteq> None then (Inl (HTTPException 400 ''Email already registered''), st1)
         else case UserSchema e \<lparr>u_name = rb_name b, u_email = rb_email b,
                                 u_password_hash = sha256 e (rb_password b),
                                 u_avatar_url = None, u_location = rb_location b,
                                 u_is_active = True\<rparr> of
                None \<Rightarrow> (Inl ValidationError, st1)
              | Some u \<Rightarrow> (Inr (Registered nid (u_name u) (u_email u)),
                           create_document_user st1 nid u))"

text \<open>
  The filter of \<^verbatim>\<open>list_listings\<close>. In Python an empty string is false, so
  \<^verbatim>\<open>if category:\<close> and \<^verbatim>\<open>if q:\<close> add their clause for a non-empty string only.
  \<open>q\<close> goes to the store's operator as it is. \<open>None\<close> is a pattern the store refuses.
\<close>

definition truthy :: "string option \<Rightarrow> bool" where
  "truthy s = (case s of None \<Rightarrow> False | Some v \<Rightarrow> v \<noteq> [])"

definition category_clause :: "string option \<Rightarrow> listing \<Rightarrow> bool" where
  "category_clause category l =
     (if truthy category then l_category l = the category else True)"

definition title_clause :: "regex_op \<Rightarrow> string option \<Rightarrow> (listing \<Rightarrow> bool) option" where
  "title_clause rx q =
     (if truthy q then
        (case rx (the q) of
           None \<Rightarrow> None
         | Some matches \<Rightarrow> Some (\<lambda>l. matches (l_title l)))
      else Some (\<lambda>l. True))"

definition list_listings ::
    "regex_op \<Rightarrow> store \<Rightarrow> string option \<Rightarrow> string option \<Rightarrow> int
       \<Rightarrow> (error + response) \<times> store" where
  "list_listings rx st q category limit =
     (if limit < 1 \<or> 100 < limit then (Inl RequestValidationError, st)
      else case title_clause rx q of
             None \<Rightarrow> (Inl OperationFailure, touch (Read ''listing'') st)
           | Some title_ok \<Rightarrow>
               (let docs = limit_docs limit
                     (filter (\<lambda>d. l_status (body d) = ''active''
                                  \<and> category_clause category (body d)
                                  \<and> title_ok (body d)) (db_listing st))
                in (Inr (ListingItems (map public docs)), touch (Read ''listing'') st)))"

definition create_listing ::
    "env \<Rightarrow> store \<Rightarrow> string \<Rightarrow> CreateListingBody \<Rightarrow> (error + response) \<times> store" where
  "create_listing e st nid b =
     (if \<not> is_valid (cl_user_id b) then (Inl (HTTPException 400 ''Invalid user id''), st)
      else
        let st1 = touch (Read ''user'') st;
            owner = find_one (\<lambda>d. oid d = ObjectId (cl_user_id b)) (db_user st)
        in if owner = None then (Inl (HTTPException 404 ''User not found''), st1)
           else case ListingSchema e
                  \<lparr>l_user_id = cl_user_id b, l_title = cl_title b,
                   l_description = cl_description b, l_price = cl_price b,
                   l_category = cl_category b,
                   l_listing_type =
                     (if cl_listing_type b \<in> set [''sale'', ''service'', ''rent'']
                      then cl_listing_type b else ''sale''),
                   l_location = cl_location b,
                   l_images = (case cl_images b of None \<Rightarrow> [] | Some xs \<Rightarrow> xs),
                   l_status = ''active''\<rparr> of
                  None \<Rightarrow> (Inl ValidationError, st1)
                | Some l \<Rightarrow> (Inr (Created nid), create_document_listing st1 nid l))"

definition save_listing :: "store \<Rightarrow> string \<Rightarrow> SaveBody \<Rightarrow> (error + response) \<times> store" where
  "save_listing st nid b =
     (if \<not> (is_valid (sb_user_id b) \<and> is_valid (sb_listing_id b))
      then (Inl (HTTPException 400 ''Invalid ids''), st)
      else
        let st1 = touch (Read ''saved'') st;
            existing = find_one (\<lambda>d. s_user_id (body d) = sb_user_id b
                                     \<and> s_listing_id (body d) = sb_listing_id b) (db_saved st)
        in if existing \<noteq> None then (Inr (Status ''already_saved''), st1)
           else case SavedSchema \<lparr>s_user_id = sb_user_id b, s_listing_id = sb_listing_id b\<rparr> of
                  None \<Rightarrow> (Inl ValidationError, st1)
                | Some s \<Rightarrow> (Inr (Created nid), create_document_saved st1 nid s))"

definition get_saved :: "store \<Rightarrow> string \<Rightarrow> (error + response) \<times> store" where
  "get_saved st user_id =
     (if \<not> is_valid user_id then (Inl (HTTPException 400 ''Invalid user id''), st)
      else (Inr (SavedItems (map public (filter (\<lambda>d. s_user_id (body d) = user_id) (db_saved st)))),
            touch (Read ''saved'') st))"

definition send_message ::
    "store \<Rightarrow> string \<Rightarrow> nat \<Rightarrow> SendMessageBody \<Rightarrow> (error + response) \<times> store" where
  "send_message st nid now b =
     (if \<not> (is_valid (sm_listing_id b) \<and> is_valid (sm_from_user_id b) \<and> is_valid (sm_to_user_id b))
      then (Inl (HTTPException 400 ''Invalid ids''), st)
      else
        let st1 = touch (Read ''listing'') st
        in if find_one (\<lambda>d. oid d = ObjectId (sm_listing_id b)) (db_listing st) = None
           then (Inl (HTTPException 404 ''Listing not found''), st1)
           else case MessageSchema \<lparr>m_listing_id = sm_listing_id b,
                                    m_from_user_id = sm_from_user_id b,
                                    m_to_user_id = sm_to_user_id b,
                                    m_content = sm_content b, m_read = False\<rparr> of
                  None \<Rightarrow> (Inl ValidationError, st1)
                | Some m \<Rightarrow> (Inr (Created nid), create_document_message st1 nid now m))"

definition in_thread :: "string \<Rightarrow> string \<Rightarrow> string \<Rightarrow> stored_message \<Rightarrow> bool" where
  "in_thread listing_id a b m =
     (m_listing_id m = listing_id
      \<and> (m_from_user_id m = a \<and> m_to_user_id m = b
         \<or> m_from_user_id m = b \<and> m_to_user_id m = a))"

definition get_thread ::
    "store \<Rightarrow> string \<Rightarrow> string \<Rightarrow> string \<Rightarrow> int \<Rightarrow> (error + response) \<times> store" where
  "get_thread st listing_id a b limit =
     (if limit < 1 \<or> 200 < limit then (Inl RequestValidationError, st)
      else if \<not> (is_valid listing_id \<and> is_valid a \<and> is_valid b)
      then (Inl (HTTPException 400 ''Invalid ids''), st)
      else
        let docs = limit_docs limit
              (sort_key (\<lambda>d. created_at (body d))
                 (filter (\<lambda>d. in_thread listing_id a b (body d)) (db_message st)))
        in (Inr (MessageItems (map public docs)), touch (Read ''message'') st))"

subsection \<open>The spec's reading of the title search\<close>

text \<open>
  Following the spec's words, not the source: "a case-insensitive substring match against
  the title field", that is, the title contains \<open>q\<close> as a contiguous piece when letter
  case is ignored (letters are folded as ASCII). It is compared with what
  \<open>list_listings\<close> computes.
\<close>

definition icontains :: "string \<Rightarrow> string \<Rightarrow> bool" where
  "icontains q t = sublist (map to_lower q) (map to_lower t)"

subsection \<open>Example data\<close>

text \<open>
  An environment whose validators accept every string. The hash is the identity: no
  property below depends on it.
\<close>

definition ex_env :: env where
  "ex_env = \<lparr>sha256 = (\<lambda>s. s), EmailStr = (\<lambda>s. Some s), url_ok = (\<lambda>s. True)\<rparr>"

text \<open>
  An example of a regular-expression operator, to run \<open>list_listings\<close> on concrete
  requests. It is not the store's operator: it knows the patterns built from ordinary
  ASCII characters, which stand for themselves whatever their case, and the dot, which
  stands for any character but a newline, and it refuses every other pattern (one with
  a character of \<open>rx_special\<close> or with a character outside ASCII, whose eighth bit is
  set). On the patterns and titles it is used with below, a regular-expression search
  gives the same answers. The properties of \<open>list_listings\<close> are stated for every
  operator.
\<close>

datatype rx_item = Lit char | AnyChar

definition rx_special :: "char list" where
  "rx_special = CHR 0x5C # ''^$|?*+()[]{}''"

fun regex_compile :: "string \<Rightarrow> rx_item list option" where
  "regex_compile [] = Some []"
| "regex_compile (c # cs) =
     (if c \<in> set rx_special \<or> digit7 c then None
      else case regex_compile cs of
             None \<Rightarrow> None
           | Some is \<Rightarrow> Some ((if c = CHR ''.'' then AnyChar else Lit c) # is))"

fun rx_item_ok :: "rx_item \<Rightarrow> char \<Rightarrow> bool" where
  "rx_item_ok (Lit a) c = (to_lower a = to_lower c)"
| "rx_item_ok AnyChar c = (c \<noteq> CHR 0x0A)"

fun rx_match_here :: "rx_item list \<Rightarrow> string \<Rightarrow> bool" where
  "rx_match_here [] t = True"
| "rx_match_here (i # is) [] = False"
| "rx_match_here (i # is) (c # cs) = (rx_item_ok i c \<and> rx_match_here is cs)"

fun rx_search :: "rx_item list \<Rightarrow> string \<Rightarrow> bool" where
  "rx_search is [] = rx_match_here is []"
| "rx_search is (c # cs) = (rx_match_here is (c # cs) \<or> rx_search is cs)"

definition dot_regex :: regex_op where
  "dot_regex p = (case regex_compile p of None \<Rightarrow> None | Some is \<Rightarrow> Some (rx_search is))"

definition id_listing :: string where
  "id_listing = ''64b7f0c2a1d3e4f567890a01''"

definition id_alice :: string where
  "id_alice = ''64b7f0c2a1d3e4f567890a02''"

definition id_bob :: string where
  "id_bob = ''64b7f0c2a1d3e4f567890a03''"

definition id_new :: string where
  "id_new = ''64b7f0c2a1d3e4f567890d01''"

definition id_new2 :: string where
  "id_new2 = ''64b7f0c2a1d3e4f567890d02''"

definition empty_store :: store where
  "empty_store = \<lparr>db_user = [], db_listing = [], db_message = [], db_saved = [], touched = []\<rparr>"

text \<open>
  Three messages of one thread. \<open>msg_1\<close> and \<open>msg_2\<close> carry the same creation timestamp;
  the two stores hold them in the two possible insertion orders.
\<close>

definition msg_1 :: "stored_message document" where
  "msg_1 = \<lparr>oid = ''64b7f0c2a1d3e4f567890b01'',
            body = \<lparr>m_listing_id = id_listing, m_from_user_id = id_alice, m_to_user_id = id_bob,
                     m_content = ''hello'', m_read = False, created_at = 5\<rparr>\<rparr>"

definition msg_2 :: "stored_message document" where
  "msg_2 = \<lparr>oid = ''64b7f0c2a1d3e4f567890b02'',
            body = \<lparr>m_listing_id = id_listing, m_from_user_id = id_bob, m_to_user_id = id_alice,
                     m_content = ''hi'', m_read = False, created_at = 5\<rparr>\<rparr>"

definition msg_3 :: "stored_message document" where
  "msg_3 = \<lparr>oid = ''64b7f0c2a1d3e4f567890b03'',
            body = \<lparr>m_listing_id = id_listing, m_from_user_id = id_bob, m_to_user_id = id_alice,
                     m_content = ''first'', m_read = False, created_at = 3\<rparr>\<rparr>"

text \<open>A message about the same listing that Alice sent to a third user.\<close>

definition id_carol :: string where
  "id_carol = ''64b7f0c2a1d3e4f567890a04''"

definition msg_4 :: "stored_message document" where
  "msg_4 = \<lparr>oid = ''64b7f0c2a1d3e4f567890b04'',
            body = \<lparr>m_listing_id = id_listing, m_from_user_id = id_alice, m_to_user_id = id_carol,
                     m_content = ''still there?'', m_read = False, created_at = 4\<rparr>\<rparr>"

definition store_thread_c :: store where
  "store_thread_c = empty_store\<lparr>db_message := [msg_1, msg_4, msg_3]\<rparr>"

definition store_thread_a :: store where
  "store_thread_a = empty_store\<lparr>db_message := [msg_1, msg_2, msg_3]\<rparr>"

definition store_thread_b :: store where
  "store_thread_b = empty_store\<lparr>db_message := [msg_2, msg_1, msg_3]\<rparr>"

text \<open>A store with one user and three listings, one of them sold.\<close>

definition usr_alice :: "user document" where
  "usr_alice = \<lparr>oid = id_alice,
                body = \<lparr>u_name = ''Alice'', u_email = ''a@x.com'', u_password_hash = ''h1'',
                         u_avatar_url = None, u_location = None, u_is_active = True\<rparr>\<rparr>"

definition lst_bike :: "listing document" where
  "lst_bike = \<lparr>oid = ''64b7f0c2a1d3e4f567890c01'',
               body = \<lparr>l_user_id = id_alice, l_title = ''Red bike'', l_description = ''A bike'',
                        l_price = 40, l_category = ''sports'', l_listing_type = ''sale'',
                        l_location = None, l_images = [], l_status = ''active''\<rparr>\<rparr>"

definition lst_lamp :: "listing document" where
  "lst_lamp = \<lparr>oid = ''64b7f0c2a1d3e4f567890c02'',
               body = \<lparr>l_user_id = id_alice, l_title = ''Phone lamp'', l_description = ''A lamp'',
                        l_price = 5, l_category = ''electronics'', l_listing_type = ''sale'',
                        l_location = None, l_images = [], l_status = ''sold''\<rparr>\<rparr>"

definition lst_phone :: "listing document" where
  "lst_phone = \<lparr>oid = ''64b7f0c2a1d3e4f567890c03'',
                body = \<lparr>l_user_id = id_alice, l_title = ''Phone'', l_description = ''A phone'',
                         l_price = 90, l_category = ''electronics'', l_listing_type = ''sale'',
                         l_location = None, l_images = [], l_status = ''active''\<rparr>\<rparr>"

definition store_market :: store where
  "store_market =
     empty_store\<lparr>db_user := [usr_alice], db_listing := [lst_bike, lst_lamp, lst_phone]\<rparr>"

definition reg_again :: RegisterBody where
  "reg_again = \<lparr>rb_name = ''Al'', rb_email = ''a@x.com'', rb_password = ''pw'',
                 rb_location = None\<rparr>"

definition new_listing :: CreateListingBody where
  "new_listing = \<lparr>cl_user_id = id_alice, cl_title = ''Flat'', cl_description = ''Two rooms'',
                   cl_price = 700, cl_category = ''housing'', cl_listing_type = ''lease'',
                   cl_location = None, cl_images = None\<rparr>"

definition new_message :: SendMessageBody where
  "new_message = \<lparr>sm_listing_id = id_listing, sm_from_user_id = id_alice,
                   sm_to_user_id = id_bob, sm_content = ''hello''\<rparr>"

section \<open>Properties\<close>

subsection \<open>Auxiliary facts\<close>

lemmas ex_ids = id_listing_def id_alice_def id_bob_def id_carol_def id_new_def id_new2_def

lemmas valid_simps = is_valid_def hexdigits_def

lemmas market_defs = store_market_def empty_store_def usr_alice_def lst_bike_def lst_lamp_def
  lst_phone_def

lemma valid_ids: "is_valid id_listing" "is_valid id_alice" "is_valid id_bob"
  by (simp_all add: ex_ids valid_simps)

lemma find_one_None: "find_one p ds = None \<longleftrightarrow> filter p ds = []"
  by (induction ds) (auto simp: find_one_def)

lemma find_one_exists: "find_one p ds \<noteq> None \<longleftrightarrow> (\<exists>d \<in> set ds. p d)"
  by (induction ds) (auto simp: find_one_def)

lemma find_one_snoc:
  "find_one p (ds @ [d]) =
     (case find_one p ds of None \<Rightarrow> (if p d then Some d else None) | Some x \<Rightarrow> Some x)"
  by (induction ds) (auto simp: find_one_def)

lemma sorted_created_limit:
  "sorted (map (\<lambda>i. created_at (item_fields i))
     (map public (limit_docs n (sort_key (\<lambda>d. created_at (body d)) ds))))"
proof -
  have "map (\<lambda>i. created_at (item_fields i))
          (map public (limit_docs n (sort_key (\<lambda>d. created_at (body d)) ds)))
        = take (nat n) (map (\<lambda>d. created_at (body d)) (sort_key (\<lambda>d. created_at (body d)) ds))"
    by (simp add: limit_docs_def public_def take_map o_def)
  moreover have "sorted (map (\<lambda>d. created_at (body d)) (sort_key (\<lambda>d. created_at (body d)) ds))"
    by (rule sorted_sort_key)
  ultimately show ?thesis
    by (simp add: sorted_wrt_take)
qed

subsection \<open>Message threads\<close>

text \<open>
  C1, as stated, does not hold: the thread is sorted by creation timestamp only. The
  handler asks the store for \<^verbatim>\<open>sort("created_at", 1)\<close> and names no second key, so two
  messages with the same timestamp come back in the order the store holds them. The
  same two messages, stored in the two insertion orders, are returned in the two orders:
  their identifiers do not decide it.
\<close>

theorem get_thread_tie_order_counterexample:
  "fst (get_thread store_thread_a id_listing id_alice id_bob 50)
     = Inr (MessageItems [public msg_3, public msg_1, public msg_2])
   \<and> fst (get_thread store_thread_b id_listing id_alice id_bob 50)
     = Inr (MessageItems [public msg_3, public msg_2, public msg_1])
   \<and> created_at (body msg_1) = created_at (body msg_2)
   \<and> oid msg_1 \<noteq> oid msg_2"
  by (simp add: get_thread_def valid_simps limit_docs_def in_thread_def store_thread_a_def
      store_thread_b_def empty_store_def msg_1_def msg_2_def msg_3_def ex_ids)

text \<open>
  C1, amended. For every thread query with well-formed identifiers and a limit within the
  declared bounds, the handler returns a list of messages, and that list is sorted
  ascending by creation timestamp (oldest first).
\<close>

theorem get_thread_sorted_by_created_at:
  assumes "is_valid listing_id" and "is_valid a" and "is_valid b"
    and "1 \<le> limit" and "limit \<le> 200"
  shows "\<exists>items. fst (get_thread st listing_id a b limit) = Inr (MessageItems items)
           \<and> sorted (map (\<lambda>i. created_at (item_fields i)) items)"
proof -
  let ?docs = "limit_docs limit (sort_key (\<lambda>d. created_at (body d))
                 (filter (\<lambda>d. in_thread listing_id a b (body d)) (db_message st)))"
  from assms have "fst (get_thread st listing_id a b limit) = Inr (MessageItems (map public ?docs))"
    by (simp add: get_thread_def)
  then show ?thesis
    using sorted_created_limit by blast
qed

text \<open>
  Witness for C1, amended: the thread of \<open>store_thread_a\<close>, whose youngest stored message
  is the oldest by timestamp.
\<close>

theorem get_thread_sorted_witness:
  "is_valid id_listing \<and> is_valid id_alice \<and> is_valid id_bob
   \<and> (1::int) \<le> 50 \<and> (50::int) \<le> 200
   \<and> (\<exists>items. fst (get_thread store_thread_a id_listing id_alice id_bob 50)
                 = Inr (MessageItems items)
          \<and> sorted (map (\<lambda>i. created_at (item_fields i)) items))"
  using get_thread_sorted_by_created_at [of id_listing id_alice id_bob 50 store_thread_a]
  by (simp add: valid_ids)

text \<open>
  C3. A thread query gives the same answer whichever of the two users is named first.
  With well-formed identifiers and a limit within the declared bounds the answer is a
  list of messages, each of them a stored message about the listing that one of the two
  users sent to the other, in either direction; and when the thread has no more messages
  than the limit, every such stored message is in the answer.
\<close>

theorem get_thread_symmetric:
  "get_thread st listing_id a b limit = get_thread st listing_id b a limit
   \<and> (is_valid listing_id \<and> is_valid a \<and> is_valid b \<and> 1 \<le> limit \<and> limit \<le> 200 \<longrightarrow>
        (\<exists>docs. fst (get_thread st listing_id a b limit) = Inr (MessageItems (map public docs))
           \<and> set docs \<subseteq> {d \<in> set (db_message st). m_listing_id (body d) = listing_id
                  \<and> (m_from_user_id (body d) = a \<and> m_to_user_id (body d) = b
                     \<or> m_from_user_id (body d) = b \<and> m_to_user_id (body d) = a)}
           \<and> (length (filter (\<lambda>d. m_listing_id (body d) = listing_id
                  \<and> (m_from_user_id (body d) = a \<and> m_to_user_id (body d) = b
                     \<or> m_from_user_id (body d) = b \<and> m_to_user_id (body d) = a))
                  (db_message st)) \<le> nat limit \<longrightarrow>
               set docs = {d \<in> set (db_message st). m_listing_id (body d) = listing_id
                  \<and> (m_from_user_id (body d) = a \<and> m_to_user_id (body d) = b
                     \<or> m_from_user_id (body d) = b \<and> m_to_user_id (body d) = a)})))"
proof -
  let ?P = "\<lambda>d. m_listing_id (body d) = listing_id
              \<and> (m_from_user_id (body d) = a \<and> m_to_user_id (body d) = b
                 \<or> m_from_user_id (body d) = b \<and> m_to_user_id (body d) = a)"
  let ?thread = "sort_key (\<lambda>d. created_at (body d)) (filter ?P (db_message st))"
  have sym: "in_thread listing_id a b = in_thread listing_id b a"
    by (auto simp: in_thread_def fun_eq_iff)
  then have swap: "get_thread st listing_id a b limit = get_thread st listing_id b a limit"
    by (auto simp: get_thread_def)
  have P: "(\<lambda>d. in_thread listing_id a b (body d)) = ?P"
    by (simp add: in_thread_def fun_eq_iff)
  have members: "set ?thread = {d \<in> set (db_message st). ?P d}"
    by simp
  have sub: "set (take (nat limit) ?thread) \<subseteq> {d \<in> set (db_message st). ?P d}"
    using set_take_subset [of "nat limit" ?thread] members by blast
  have all: "set (take (nat limit) ?thread) = {d \<in> set (db_message st). ?P d}"
    if "length (filter ?P (db_message st)) \<le> nat limit"
    using that members by simp
  have answer: "fst (get_thread st listing_id a b limit)
                  = Inr (MessageItems (map public (take (nat limit) ?thread)))"
    if "is_valid listing_id" "is_valid a" "is_valid b" "1 \<le> limit" "limit \<le> 200"
    using that by (simp add: get_thread_def limit_docs_def P)
  from swap sub all answer show ?thesis
    by blast
qed

text \<open>
  Witness for C3: the thread of Alice and Bob in a store that also holds a message of
  Alice to a third user about the same listing; that message is not in the answer.
\<close>

theorem get_thread_symmetric_witness:
  "is_valid id_listing \<and> is_valid id_alice \<and> is_valid id_bob
   \<and> (1::int) \<le> 50 \<and> (50::int) \<le> 200
   \<and> get_thread store_thread_c id_listing id_alice id_bob 50
       = get_thread store_thread_c id_listing id_bob id_alice 50
   \<and> fst (get_thread store_thread_c id_listing id_bob id_alice 50)
       = Inr (MessageItems [public msg_3, public msg_1])"
  using get_thread_symmetric [of store_thread_c id_listing id_alice id_bob 50]
  by (simp add: get_thread_def valid_simps limit_docs_def in_thread_def store_thread_c_def
      empty_store_def msg_1_def msg_3_def msg_4_def ex_ids)

subsection \<open>Saved entries\<close>

text \<open>
  C4. For well-formed identifiers and a store that holds no saved entry for the pair yet,
  saving the pair twice in a row answers \<^verbatim>\<open>{"id": ...}\<close> with the new entry's identifier
  the first time and \<^verbatim>\<open>{"status": "already_saved"}\<close> the second time, both without an
  error, the two answers differ, and afterwards the store holds exactly one saved entry
  for the pair: the one created by the first call.
\<close>

theorem save_listing_twice:
  assumes "is_valid u" and "is_valid l"
    and "filter (\<lambda>d. s_user_id (body d) = u \<and> s_listing_id (body d) = l) (db_saved st) = []"
  shows "let b = \<lparr>sb_user_id = u, sb_listing_id = l\<rparr>;
             first = save_listing st nid1 b;
             second = save_listing (snd first) nid2 b
         in fst first = Inr (Created nid1)
            \<and> fst second = Inr (Status ''already_saved'')
            \<and> fst first \<noteq> fst second
            \<and> filter (\<lambda>d. s_user_id (body d) = u \<and> s_listing_id (body d) = l)
                 (db_saved (snd second))
                = [\<lparr>oid = nid1, body = \<lparr>s_user_id = u, s_listing_id = l\<rparr>\<rparr>]"
proof -
  let ?p = "\<lambda>d. s_user_id (body d) = u \<and> s_listing_id (body d) = l"
  let ?b = "\<lparr>sb_user_id = u, sb_listing_id = l\<rparr>"
  let ?new = "\<lparr>oid = nid1, body = \<lparr>s_user_id = u, s_listing_id = l\<rparr>\<rparr>"
  let ?st1 = "create_document_saved (touch (Read ''saved'') st) nid1
                \<lparr>s_user_id = u, s_listing_id = l\<rparr>"
  from assms(3) have none: "find_one ?p (db_saved st) = None"
    by (simp add: find_one_None)
  with assms(1,2) have first: "save_listing st nid1 ?b = (Inr (Created nid1), ?st1)"
    by (simp add: save_listing_def SavedSchema_def)
  have saved1: "db_saved ?st1 = db_saved st @ [?new]"
    by (simp add: create_document_saved_def touch_def)
  with none have some: "find_one ?p (db_saved ?st1) = Some ?new"
    by (simp add: find_one_snoc)
  with assms(1,2) have second:
    "save_listing ?st1 nid2 ?b = (Inr (Status ''already_saved''), touch (Read ''saved'') ?st1)"
    by (simp add: save_listing_def)
  have "db_saved (touch (Read ''saved'') ?st1) = db_saved ?st1"
    by (simp add: touch_def)
  with saved1 assms(3) have "filter ?p (db_saved (touch (Read ''saved'') ?st1)) = [?new]"
    by simp
  with first second show ?thesis
    by (simp add: Let_def)
qed

text \<open>Witness for C4: Alice saves one listing twice, starting from the empty store.\<close>

theorem save_listing_twice_witness:
  "is_valid id_alice \<and> is_valid id_listing
   \<and> filter (\<lambda>d. s_user_id (body d) = id_alice \<and> s_listing_id (body d) = id_listing)
        (db_saved empty_store) = []
   \<and> (let b = \<lparr>sb_user_id = id_alice, sb_listing_id = id_listing\<rparr>;
           first = save_listing empty_store id_new b;
           second = save_listing (snd first) id_new2 b
       in fst first = Inr (Created id_new)
          \<and> fst second = Inr (Status ''already_saved'')
          \<and> fst first \<noteq> fst second
          \<and> filter (\<lambda>d. s_user_id (body d) = id_alice \<and> s_listing_id (body d) = id_listing)
               (db_saved (snd second))
              = [\<lparr>oid = id_new, body = \<lparr>s_user_id = id_alice, s_listing_id = id_listing\<rparr>\<rparr>])"
  using save_listing_twice [of id_alice id_listing empty_store id_new id_new2]
  by (simp add: valid_ids empty_store_def)

subsection \<open>Identifier guards\<close>

text \<open>
  C5. Whenever an identifier given to create listing, save listing, list saved, send
  message or get thread is malformed, the handler fails with status 400, which is
  \<open>InvalidArgument\<close>, and hands the store back as it was: no read and no write is logged.
  For get thread the limit must lie within its declared bounds for the failure to be
  the 400 of the handler (outside them the framework has already rejected the request);
  the store is untouched in both cases.
\<close>

theorem malformed_identifier_rejected_untouched:
  "(\<not> is_valid (cl_user_id cb) \<longrightarrow>
      create_listing e st nid cb = (Inl (HTTPException 400 ''Invalid user id''), st))
   \<and> (\<not> (is_valid (sb_user_id sb) \<and> is_valid (sb_listing_id sb)) \<longrightarrow>
      save_listing st nid sb = (Inl (HTTPException 400 ''Invalid ids''), st))
   \<and> (\<not> is_valid user_id \<longrightarrow>
      get_saved st user_id = (Inl (HTTPException 400 ''Invalid user id''), st))
   \<and> (\<not> (is_valid (sm_listing_id mb) \<and> is_valid (sm_from_user_id mb)
          \<and> is_valid (sm_to_user_id mb)) \<longrightarrow>
      send_message st nid now mb = (Inl (HTTPException 400 ''Invalid ids''), st))
   \<and> (\<not> (is_valid listing_id \<and> is_valid a \<and> is_valid b) \<longrightarrow>
      snd (get_thread st listing_id a b limit) = st
      \<and> (1 \<le> limit \<and> limit \<le> 200 \<longrightarrow>
           fst (get_thread st listing_id a b limit) = Inl (HTTPException 400 ''Invalid ids'')))
   \<and> is_invalid_argument (HTTPException 400 ''Invalid user id'')
   \<and> is_invalid_argument (HTTPException 400 ''Invalid ids'')"
  by (simp add: create_listing_def save_listing_def get_saved_def send_message_def
      get_thread_def is_invalid_argument_def)

text \<open>
  Witness for C5: the string \<^verbatim>\<open>not-an-id\<close> given to each of the five handlers on a store
  that holds a user and three listings.
\<close>

theorem malformed_identifier_witness:
  "\<not> is_valid ''not-an-id''
   \<and> create_listing ex_env store_market id_new (new_listing\<lparr>cl_user_id := ''not-an-id''\<rparr>)
       = (Inl (HTTPException 400 ''Invalid user id''), store_market)
   \<and> save_listing store_market id_new \<lparr>sb_user_id = id_alice, sb_listing_id = ''not-an-id''\<rparr>
       = (Inl (HTTPException 400 ''Invalid ids''), store_market)
   \<and> get_saved store_market ''not-an-id''
       = (Inl (HTTPException 400 ''Invalid user id''), store_market)
   \<and> send_message store_market id_new 7 (new_message\<lparr>sm_to_user_id := ''not-an-id''\<rparr>)
       = (Inl (HTTPException 400 ''Invalid ids''), store_market)
   \<and> get_thread store_market ''not-an-id'' id_alice id_bob 50
       = (Inl (HTTPException 400 ''Invalid ids''), store_market)"
  using malformed_identifier_rejected_untouched
    [of "new_listing\<lparr>cl_user_id := ''not-an-id''\<rparr>" ex_env store_market id_new
        "\<lparr>sb_user_id = id_alice, sb_listing_id = ''not-an-id''\<rparr>" "''not-an-id''"
        "new_message\<lparr>sm_to_user_id := ''not-an-id''\<rparr>" 7 "''not-an-id''" id_alice id_bob 50]
  by (simp add: valid_simps prod_eq_iff)

text \<open>
  C6. A send message request with three well-formed identifiers whose listing identifier
  is the identifier of no stored listing fails with status 404, which is \<open>NotFound\<close>, and
  leaves the message collection as it was.
\<close>

theorem send_message_unknown_listing:
  assumes "is_valid (sm_listing_id b)" and "is_valid (sm_from_user_id b)"
    and "is_valid (sm_to_user_id b)"
    and "ObjectId (sm_listing_id b) \<notin> set (map oid (db_listing st))"
  shows "fst (send_message st nid now b) = Inl (HTTPException 404 ''Listing not found'')
         \<and> is_not_found (HTTPException 404 ''Listing not found'')
         \<and> db_message (snd (send_message st nid now b)) = db_message st"
proof -
  from assms(4) have "find_one (\<lambda>d. oid d = ObjectId (sm_listing_id b)) (db_listing st) = None"
    by (force simp: find_one_def find_None_iff)
  with assms(1-3) show ?thesis
    by (simp add: send_message_def Let_def touch_def is_not_found_def)
qed

text \<open>
  Witness for C6: a message about a listing identifier that none of the three stored
  listings has.
\<close>

theorem send_message_unknown_listing_witness:
  "is_valid (sm_listing_id new_message) \<and> is_valid (sm_from_user_id new_message)
   \<and> is_valid (sm_to_user_id new_message)
   \<and> ObjectId (sm_listing_id new_message) \<notin> set (map oid (db_listing store_market))
   \<and> fst (send_message store_market id_new 7 new_message)
       = Inl (HTTPException 404 ''Listing not found'')
   \<and> db_message (snd (send_message store_market id_new 7 new_message))
       = db_message store_market"
  using send_message_unknown_listing [of new_message store_market id_new 7]
  by (simp add: new_message_def market_defs ObjectId_def to_lower_def ex_ids valid_simps)

subsection \<open>Listing search\<close>

text \<open>
  C2 does not hold of the code. The handler means a text search (its comment: "Simple
  text search via regex") but hands \<open>q\<close> to the store as the pattern itself, without
  escaping it, so a character with a meaning in a regular expression is not searched for
  as itself. Under every operator for which the pattern \<^verbatim>\<open>b.ke\<close> matches \<^verbatim>\<open>Red bike\<close>
  and not \<^verbatim>\<open>Phone\<close>, the request \<^verbatim>\<open>q=b.ke\<close> returns the listing titled \<^verbatim>\<open>Red bike\<close>,
  although that title holds no dot and so does not contain \<^verbatim>\<open>b.ke\<close>.
\<close>

theorem list_listings_query_is_pattern:
  assumes "rx ''b.ke'' = Some matches" and "matches ''Red bike''" and "\<not> matches ''Phone''"
  shows "fst (list_listings rx store_market (Some ''b.ke'') None 20)
           = Inr (ListingItems [public lst_bike])
         \<and> l_status (body lst_bike) = ''active''
         \<and> CHR ''.'' \<notin> set (l_title (body lst_bike))
         \<and> \<not> icontains ''b.ke'' (l_title (body lst_bike))"
proof -
  from assms have "fst (list_listings rx store_market (Some ''b.ke'') None 20)
                     = Inr (ListingItems [public lst_bike])"
    by (simp add: list_listings_def title_clause_def truthy_def category_clause_def
        limit_docs_def market_defs)
  moreover have "\<not> icontains ''b.ke'' (l_title (body lst_bike))"
    by (simp add: lst_bike_def icontains_def to_lower_def sublist_Cons_right)
  ultimately show ?thesis
    by (simp add: lst_bike_def)
qed

text \<open>
  Witness for the failing request of C2: the example operator, for which the dot stands
  for any character.
\<close>

theorem list_listings_query_is_pattern_witness:
  "dot_regex ''b.ke'' = Some (rx_search [Lit CHR ''b'', AnyChar, Lit CHR ''k'', Lit CHR ''e''])
   \<and> rx_search [Lit CHR ''b'', AnyChar, Lit CHR ''k'', Lit CHR ''e''] ''Red bike''
   \<and> \<not> rx_search [Lit CHR ''b'', AnyChar, Lit CHR ''k'', Lit CHR ''e''] ''Phone''
   \<and> fst (list_listings dot_regex store_market (Some ''b.ke'') None 20)
       = Inr (ListingItems [public lst_bike])
   \<and> \<not> icontains ''b.ke'' (l_title (body lst_bike))"
proof -
  have p: "dot_regex ''b.ke''
             = Some (rx_search [Lit CHR ''b'', AnyChar, Lit CHR ''k'', Lit CHR ''e''])"
    by (simp add: dot_regex_def rx_special_def)
  have m: "rx_search [Lit CHR ''b'', AnyChar, Lit CHR ''k'', Lit CHR ''e''] ''Red bike''"
    by (simp add: to_lower_def)
  have n: "\<not> rx_search [Lit CHR ''b'', AnyChar, Lit CHR ''k'', Lit CHR ''e''] ''Phone''"
    by (simp add: to_lower_def)
  show ?thesis
    using p m n
      list_listings_query_is_pattern
        [of dot_regex "rx_search [Lit CHR ''b'', AnyChar, Lit CHR ''k'', Lit CHR ''e'']"]
    by simp
qed

text \<open>
  C7, as stated, does not hold for the empty category \<^verbatim>\<open>""\<close>: \<^verbatim>\<open>if category:\<close> adds no
  clause for it, and listings of every category are returned, none of which has the
  empty category. No search string is given, so the operator is not consulted.
\<close>

theorem list_listings_empty_category_counterexample:
  "fst (list_listings (\<lambda>p. None) store_market None (Some []) 20)
     = Inr (ListingItems [public lst_bike, public lst_phone])
   \<and> l_category (item_fields (public lst_bike)) \<noteq> []"
  by (simp add: list_listings_def title_clause_def truthy_def category_clause_def
      limit_docs_def market_defs public_def)

text \<open>
  C7, amended. A list listings call with a limit within the declared bounds and with no
  search string, an empty one, or one that the store accepts as a pattern, returns a list
  of records. Every record that a list listings call returns, with or without a category
  or a search string, has status active; and when a non-empty category is given, every
  returned record has exactly that category.
\<close>

theorem list_listings_active_and_category:
  "(1 \<le> limit \<and> limit \<le> 100 \<and> (q = None \<or> q = Some [] \<or> rx (the q) \<noteq> None) \<longrightarrow>
      (\<exists>items. fst (list_listings rx st q category limit) = Inr (ListingItems items)))
   \<and> (fst (list_listings rx st q category limit) = Inr (ListingItems items) \<and> i \<in> set items \<longrightarrow>
        l_status (item_fields i) = ''active''
        \<and> (category = Some c \<and> c \<noteq> [] \<longrightarrow> l_category (item_fields i) = c))"
proof -
  have returns: "\<exists>items. fst (list_listings rx st q category limit) = Inr (ListingItems items)"
    if "1 \<le> limit" "limit \<le> 100" "q = None \<or> q = Some [] \<or> rx (the q) \<noteq> None"
  proof -
    from that(3) have "title_clause rx q \<noteq> None"
      by (cases q) (auto simp: title_clause_def truthy_def split: option.splits)
    then obtain ok where "title_clause rx q = Some ok"
      by auto
    with that(1,2) show ?thesis
      by (simp add: list_listings_def)
  qed
  have filtered: "l_status (item_fields i) = ''active''
                  \<and> (category = Some c \<and> c \<noteq> [] \<longrightarrow> l_category (item_fields i) = c)"
    if r: "fst (list_listings rx st q category limit) = Inr (ListingItems items)"
      and i: "i \<in> set items"
  proof -
    from r obtain ok where
      "items = map public (limit_docs limit
                 (filter (\<lambda>d. l_status (body d) = ''active''
                              \<and> category_clause category (body d) \<and> ok (body d)) (db_listing st)))"
      by (auto simp: list_listings_def split: if_splits option.splits)
    with i obtain d where "i = public d" "l_status (body d) = ''active''"
        "category_clause category (body d)"
      by (auto simp: limit_docs_def dest: in_set_takeD)
    then show ?thesis
      by (auto simp: public_def category_clause_def truthy_def)
  qed
  from returns filtered show ?thesis
    by blast
qed

text \<open>
  Witness for C7, amended: the category \<^verbatim>\<open>electronics\<close> and the search string \<^verbatim>\<open>ph.ne\<close>,
  with the example operator, on a store that holds an active and a sold listing of that
  category and an active one of another.
\<close>

theorem list_listings_active_and_category_witness:
  "(1::int) \<le> 20 \<and> (20::int) \<le> 100 \<and> dot_regex ''ph.ne'' \<noteq> None
   \<and> fst (list_listings dot_regex store_market (Some ''ph.ne'') (Some ''electronics'') 20)
       = Inr (ListingItems [public lst_phone])
   \<and> public lst_phone \<in> set [public lst_phone]
   \<and> l_status (item_fields (public lst_phone)) = ''active''
   \<and> l_category (item_fields (public lst_phone)) = ''electronics''"
proof -
  have h: "fst (list_listings dot_regex store_market (Some ''ph.ne'') (Some ''electronics'') 20)
             = Inr (ListingItems [public lst_phone])"
    by (simp add: list_listings_def title_clause_def truthy_def category_clause_def
        limit_docs_def market_defs dot_regex_def rx_special_def to_lower_def)
  have p: "dot_regex ''ph.ne'' \<noteq> None"
    by (simp add: dot_regex_def rx_special_def)
  show ?thesis
    using h p list_listings_active_and_category
      [of 20 "Some ''ph.ne''" dot_regex store_market "Some ''electronics''"
          "[public lst_phone]" "public lst_phone" "''electronics''"]
    by simp
qed

text \<open>
  C10. An empty search string is treated as no search string, and an empty category as
  no category: neither adds a clause to the filter.
\<close>

theorem list_listings_empty_is_absent:
  "list_listings rx st (Some []) category limit = list_listings rx st None category limit
   \<and> list_listings rx st q (Some []) limit = list_listings rx st q None limit"
proof -
  have t: "title_clause rx (Some []) = title_clause rx None"
    by (simp add: title_clause_def truthy_def)
  have c: "category_clause (Some []) = category_clause None"
    by (simp add: fun_eq_iff category_clause_def truthy_def)
  show ?thesis
    unfolding list_listings_def t c by simp
qed

subsection \<open>Registration\<close>

text \<open>
  C8, as stated, does not hold: registering an e-mail address that is already stored
  fails with status 400, the status of \<open>InvalidArgument\<close> and the same that a malformed
  identifier gets. The two differ in their detail text only.
\<close>

theorem register_duplicate_counterexample:
  "fst (register ex_env store_market id_new reg_again)
     = Inl (HTTPException 400 ''Email already registered'')
   \<and> is_invalid_argument (HTTPException 400 ''Email already registered'')
   \<and> fst (get_saved store_market ''not-an-id'') = Inl (HTTPException 400 ''Invalid user id'')"
  by (simp add: register_def find_one_def reg_again_def market_defs is_invalid_argument_def
      get_saved_def valid_simps)

text \<open>
  C8, amended. Registering with an e-mail address that a stored user already has fails
  with status 400 and the detail \<^verbatim>\<open>Email already registered\<close>, and no user record is
  inserted.
\<close>

theorem register_duplicate_email:
  assumes "rb_email b \<in> set (map (\<lambda>d. u_email (body d)) (db_user st))"
  shows "fst (register e st nid b) = Inl (HTTPException 400 ''Email already registered'')
         \<and> db_user (snd (register e st nid b)) = db_user st"
proof -
  from assms have "find_one (\<lambda>d. u_email (body d) = rb_email b) (db_user st) \<noteq> None"
    unfolding find_one_exists by auto
  then show ?thesis
    by (auto simp: register_def Let_def touch_def)
qed

text \<open>Witness for C8, amended: a second registration with Alice's address.\<close>

theorem register_duplicate_email_witness:
  "rb_email reg_again \<in> set (map (\<lambda>d. u_email (body d)) (db_user store_market))
   \<and> fst (register ex_env store_market id_new reg_again)
       = Inl (HTTPException 400 ''Email already registered'')
   \<and> db_user (snd (register ex_env store_market id_new reg_again)) = db_user store_market"
  using register_duplicate_email [of reg_again store_market ex_env id_new]
  by (simp add: reg_again_def market_defs)

subsection \<open>Listing creation\<close>

text \<open>
  C9. For a create listing request whose owner identifier is well-formed and is the
  identifier of a stored user: the outcome does not depend on the listing type supplied
  (no listing type is rejected); when the other fields fit the Listing schema the request
  succeeds; and whenever it succeeds, the listing appended to the store has the supplied
  listing type if that is one of sale, service and rent, and sale otherwise.
\<close>

theorem create_listing_normalises_type:
  assumes "is_valid (cl_user_id b)"
    and "ObjectId (cl_user_id b) \<in> set (map oid (db_user st))"
  shows "fst (create_listing e st nid (b\<lparr>cl_listing_type := t\<rparr>)) = fst (create_listing e st nid b)
         \<and> (length (cl_title b) \<le> 140 \<and> length (cl_description b) \<le> 5000 \<and> 0 \<le> cl_price b
              \<and> list_all (url_ok e) (case cl_images b of None \<Rightarrow> [] | Some xs \<Rightarrow> xs)
            \<longrightarrow> fst (create_listing e st nid b) = Inr (Created nid))
         \<and> (fst (create_listing e st nid b) = Inr (Created nid)
            \<longrightarrow> (\<exists>l. db_listing (snd (create_listing e st nid b))
                        = db_listing st @ [\<lparr>oid = nid, body = l\<rparr>]
                     \<and> l_listing_type l =
                         (if cl_listing_type b = ''sale'' \<or> cl_listing_type b = ''service''
                             \<or> cl_listing_type b = ''rent''
                          then cl_listing_type b else ''sale'')))"
proof -
  from assms(2) have "find_one (\<lambda>d. oid d = ObjectId (cl_user_id b)) (db_user st) \<noteq> None"
    unfolding find_one_exists by auto
  with assms(1) show ?thesis
    by (auto simp: create_listing_def Let_def ListingSchema_def create_document_listing_def
        touch_def split: if_splits)
qed

text \<open>
  Witness for C9: Alice posts a listing with the listing type \<^verbatim>\<open>lease\<close>; it is stored
  with the listing type \<^verbatim>\<open>sale\<close>.
\<close>

theorem create_listing_normalises_type_witness:
  "is_valid (cl_user_id new_listing)
   \<and> ObjectId (cl_user_id new_listing) \<in> set (map oid (db_user store_market))
   \<and> cl_listing_type new_listing = ''lease''
   \<and> fst (create_listing ex_env store_market id_new new_listing) = Inr (Created id_new)
   \<and> (\<exists>l. db_listing (snd (create_listing ex_env store_market id_new new_listing))
             = db_listing store_market @ [\<lparr>oid = id_new, body = l\<rparr>]
          \<and> l_listing_type l = ''sale'')"
  using create_listing_normalises_type [of new_listing store_market ex_env id_new "''sale''"]
  by (simp add: new_listing_def market_defs ex_env_def ObjectId_def to_lower_def ex_ids
      valid_simps)

end
